theory Spec2Isabelle
  imports Complex_Main
begin

section \<open>Python library primitives used by the demo driver\<close>

text \<open>
  The driver is \<^verbatim>\<open>load-generator/demo_scenarios.py\<close>. Python's \<^verbatim>\<open>str\<close> is modelled as
  \<^typ>\<open>string\<close>, one \<^typ>\<open>char\<close> per code point; this covers text whose code points are
  below 256. Exceptions are values of \<open>exn\<close>, and a computation that may raise returns
  \<open>exn + 'a\<close> with \<open>Inl\<close> for the raised exception.
\<close>

datatype exn =
  ValueError | FileNotFoundError | UnicodeDecodeError | KeyError | TypeError | ClientError

text \<open>
  \<^verbatim>\<open>str.strip()\<close> removes the characters for which \<^verbatim>\<open>str.isspace\<close> holds, on both
  ends. Below 256 these are the code points 9..13, 28..32, 133 and 160.
\<close>

definition py_isspace :: "char \<Rightarrow> bool" where
  "py_isspace c = (let n = (of_char c :: nat) in
     (9 \<le> n \<and> n \<le> 13) \<or> (28 \<le> n \<and> n \<le> 32) \<or> n = 133 \<or> n = 160)"

definition strip :: "string \<Rightarrow> string" where
  "strip s = rev (dropWhile py_isspace (rev (dropWhile py_isspace s)))"

text \<open>
  \<^verbatim>\<open>str.split(sep)\<close> for a one-character separator: the pieces between consecutive
  separators, empty pieces kept, so the empty string splits into one empty piece.
\<close>

fun split_on :: "char \<Rightarrow> string \<Rightarrow> string list" where
  "split_on sep [] = [[]]"
| "split_on sep (c # cs) =
     (if c = sep then [] # split_on sep cs
      else (case split_on sep cs of
              [] \<Rightarrow> [[c]]
            | piece # pieces \<Rightarrow> (c # piece) # pieces))"

text \<open>
  \<^verbatim>\<open>int(s)\<close> for a string in base 10: surrounding whitespace is skipped (for \<^verbatim>\<open>int\<close>
  the code points 9..13, 32, 133 and 160), then an optional sign, then decimal digits in
  which a single underscore may stand between two digits. Anything else raises
  \<^verbatim>\<open>ValueError\<close>, and so does a literal with more digits than the interpreter's
  limit \<^verbatim>\<open>sys.int_info.default_max_str_digits\<close>.
\<close>

definition int_isspace :: "char \<Rightarrow> bool" where
  "int_isspace c = (let n = (of_char c :: nat) in
     (9 \<le> n \<and> n \<le> 13) \<or> n = 32 \<or> n = 133 \<or> n = 160)"

definition is_digit :: "char \<Rightarrow> bool" where
  "is_digit c = (let n = (of_char c :: nat) in 48 \<le> n \<and> n \<le> 57)"

definition digit_val :: "char \<Rightarrow> nat" where
  "digit_val c = of_char c - 48"

definition default_max_str_digits :: nat where
  "default_max_str_digits = 4300"

fun digits_ok :: "string \<Rightarrow> bool" where
  "digits_ok [] = False"
| "digits_ok [c] = is_digit c"
| "digits_ok (c # d # cs) =
     (if is_digit c then (if d = CHR ''_'' then digits_ok cs else digits_ok (d # cs))
      else False)"

definition digits_value :: "string \<Rightarrow> nat" where
  "digits_value body = foldl (\<lambda>acc c. 10 * acc + digit_val c) 0 (filter is_digit body)"

definition py_int :: "string \<Rightarrow> exn + int" where
  "py_int s =
     (let t = rev (dropWhile int_isspace (rev (dropWhile int_isspace s)));
          neg = (t \<noteq> [] \<and> hd t = CHR ''-'');
          body = (if t \<noteq> [] \<and> (hd t = CHR ''-'' \<or> hd t = CHR ''+'') then tl t else t)
      in if digits_ok body \<and> length (filter is_digit body) \<le> default_max_str_digits
         then Inr (if neg then - int (digits_value body) else int (digits_value body))
         else Inl ValueError)"

section \<open>Effects of the driver\<close>

text \<open>
  Everything the driver does to the outside world is recorded, in order, as a list of
  events, one for each call it makes; a computation returns the events it caused together
  with its result or the exception that ended it. The events are:
  \<^item> \<open>Print\<close>, a line printed; \<open>PrintKubectlError\<close>, the line that \<^verbatim>\<open>run_kubectl\<close>
    prints for a failed command (the command and its return code); \<open>PrintStatus\<close>, the
    monitor's status line (time, pods, CPU, desired replicas, label); \<open>PrintNotFound\<close>,
    the report's line for a missing file;
  \<^item> \<open>SubprocessRun\<close>, a call of \<^verbatim>\<open>subprocess.run\<close>, which returns when the child has
    exited; \<open>Popen\<close>, a call of \<^verbatim>\<open>subprocess.Popen\<close>, which returns once the child is
    started; \<open>Terminate\<close>, a call of \<^verbatim>\<open>Popen.terminate\<close>, which sends the child the
    termination signal and returns; \<open>Wait\<close>, a call of \<^verbatim>\<open>Popen.wait\<close>, which returns
    when the child has exited;
  \<^item> \<open>TimeSleep\<close> and \<open>AsyncSleep\<close>, \<^verbatim>\<open>time.sleep\<close> and \<^verbatim>\<open>asyncio.sleep\<close> with their
    seconds; \<open>CreateTask\<close>, \<^verbatim>\<open>asyncio.create_task\<close> of a POST to a URL with its
    \<^verbatim>\<open>iterations\<close>; \<open>Gather\<close>, \<^verbatim>\<open>asyncio.gather\<close> over a number of tasks with its
    \<^verbatim>\<open>return_exceptions\<close>;
  \<^item> \<open>Subplots\<close>, \<open>Hist\<close>, \<open>SetTitle\<close>, \<open>SummaryText\<close> and \<open>SaveFig\<close>, the drawing
    steps of the report: the figure, a histogram on a subplot with its data, the title
    and axis labels of a subplot with the average shown, the summary panel, the saved
    file.
\<close>

datatype event =
    Print string
  | PrintKubectlError "string list" int
  | SubprocessRun "string list"
  | PrintStatus string int int int string
  | TimeSleep real
  | Popen "string list"
  | Terminate
  | Wait
  | CreateTask string int
  | AsyncSleep real
  | Gather nat bool
  | PrintNotFound string
  | Subplots
  | Hist "nat \<times> nat" "real list"
  | SetTitle "nat \<times> nat" string real
  | SummaryText
  | SaveFig string

type_synonym 'a io = "event list \<times> (exn + 'a)"

definition io_bind :: "'a io \<Rightarrow> ('a \<Rightarrow> 'b io) \<Rightarrow> 'b io" where
  "io_bind m f =
     (case m of
        (evs, Inl e) \<Rightarrow> (evs, Inl e)
      | (evs, Inr x) \<Rightarrow> (case f x of (evs', r) \<Rightarrow> (evs @ evs', r)))"

definition emit :: "event list \<Rightarrow> unit io" where
  "emit evs = (evs, Inr ())"

text \<open>
  What \<^verbatim>\<open>subprocess.run(cmd, capture_output=True, text=True, ...)\<close> meets:
  \<^item> \<open>Completed\<close>: the child ran, its captured output is valid text, and it exited with
    a return code and that standard output;
  \<^item> \<open>Undecodable\<close>: the child ran, but its captured standard output or standard error
    is not valid text in the encoding of the locale; with \<^verbatim>\<open>text=True\<close> the call then
    raises \<^verbatim>\<open>UnicodeDecodeError\<close> while it reads the output, before the return code is
    looked at, whatever that code is;
  \<^item> \<open>NotStarted\<close>: the child could not be started and \<^verbatim>\<open>subprocess.run\<close> raises (for a
    missing executable, \<^verbatim>\<open>FileNotFoundError\<close>).
\<close>

datatype run_outcome = Completed int string | Undecodable | NotStarted exn

section \<open>AutoscalingDemo\<close>

record demo =
  app_url :: string
  kubectl_context :: "string option"
  kubectl_cmd :: "string list"

text \<open>\<^verbatim>\<open>__init__\<close>: a context that is \<^verbatim>\<open>None\<close> or empty adds nothing to the command.\<close>

definition init_demo :: "string \<Rightarrow> string option \<Rightarrow> demo" where
  "init_demo url ctx =
     \<lparr> app_url = url, kubectl_context = ctx,
       kubectl_cmd =
         (case ctx of
            None \<Rightarrow> [''kubectl'']
          | Some c \<Rightarrow> if c \<noteq> [] then [''kubectl'', ''--context'', c] else [''kubectl'']) \<rparr>"

text \<open>
  \<^verbatim>\<open>run_kubectl\<close>: with \<^verbatim>\<open>check=True\<close> a non-zero return code raises
  \<^verbatim>\<open>CalledProcessError\<close>, which is caught here, printed, and turned into the empty
  string. No other exception is caught: one raised because the child cannot be started,
  or because its output does not decode, leaves \<^verbatim>\<open>run_kubectl\<close>.
\<close>

definition run_kubectl :: "demo \<Rightarrow> (string list \<Rightarrow> run_outcome) \<Rightarrow> string list \<Rightarrow> string io" where
  "run_kubectl self subprocess_run cmd =
     (let full_cmd = kubectl_cmd self @ cmd in
      case subprocess_run full_cmd of
        NotStarted e \<Rightarrow> ([SubprocessRun full_cmd], Inl e)
      | Undecodable \<Rightarrow> ([SubprocessRun full_cmd], Inl UnicodeDecodeError)
      | Completed returncode stdout \<Rightarrow>
          if returncode = 0 then ([SubprocessRun full_cmd], Inr (strip stdout))
          else ([SubprocessRun full_cmd, PrintKubectlError full_cmd returncode], Inr []))"

definition pods_cmd :: "string list" where
  "pods_cmd = [''get'', ''pods'', ''-n'', ''cloudapp'', ''-l'', ''app=cloudapp'',
               ''--field-selector'', ''status.phase=Running'', ''--no-headers'']"

definition get_pod_count :: "demo \<Rightarrow> (string list \<Rightarrow> run_outcome) \<Rightarrow> int io" where
  "get_pod_count self subprocess_run =
     io_bind (run_kubectl self subprocess_run pods_cmd) (\<lambda>output.
       ([], Inr (if output \<noteq> [] then int (length (split_on (CHR 0x0A) output)) else 0)))"

record hpa_status =
  current_replicas :: int
  desired_replicas :: int
  cpu_utilization :: int

definition hpa_cmd :: "string list" where
  "hpa_cmd = [''get'', ''hpa'', ''-n'', ''cloudapp'', ''cloudapp-hpa'', ''-o'',
     ''jsonpath={.status.currentReplicas},{.status.desiredReplicas},{.status.currentCPUUtilizationPercentage}'']"

text \<open>
  \<^verbatim>\<open>get_hpa_status\<close>: the three values of the dictionary are evaluated in order, so the
  first field that \<^verbatim>\<open>int\<close> rejects ends the call with \<^verbatim>\<open>ValueError\<close>.
\<close>

definition get_hpa_status :: "demo \<Rightarrow> (string list \<Rightarrow> run_outcome) \<Rightarrow> hpa_status io" where
  "get_hpa_status self subprocess_run =
     io_bind (run_kubectl self subprocess_run hpa_cmd) (\<lambda>output.
       if output \<noteq> [] then
         (let parts = split_on (CHR '','') output in
          io_bind ([], if parts ! 0 \<noteq> [] then py_int (parts ! 0) else Inr 0) (\<lambda>cur.
          io_bind ([], if length parts > 1 \<and> parts ! 1 \<noteq> [] then py_int (parts ! 1) else Inr 0) (\<lambda>des.
          io_bind ([], if length parts > 2 \<and> parts ! 2 \<noteq> [] then py_int (parts ! 2) else Inr 0) (\<lambda>cpu.
            ([], Inr \<lparr> current_replicas = cur, desired_replicas = des, cpu_utilization = cpu \<rparr>)))))
       else ([], Inr \<lparr> current_replicas = 0, desired_replicas = 0, cpu_utilization = 0 \<rparr>))"

text \<open>
  \<^verbatim>\<open>monitor_scaling\<close>. Each pass of the loop meets its own environment: what the two
  kubectl calls return and the wall-clock string of \<^verbatim>\<open>datetime.now()\<close>. The readings of
  \<^verbatim>\<open>time.time()\<close> are a list, the first taken before the loop and one more at every
  test of the loop condition; the model returns \<open>None\<close> when the list ends before the
  loop does. Readings are real numbers: rounding of the floating-point subtraction is
  not modelled. The status line is recorded as its five values, without the padding of
  the columns.
\<close>

record tick_env =
  subprocess_run :: "string list \<Rightarrow> run_outcome"
  strftime_now :: string

definition ljust :: "nat \<Rightarrow> string \<Rightarrow> string" where
  "ljust w s = s @ replicate (w - length s) (CHR '' '')"

definition monitor_header :: "event list" where
  "monitor_header =
     [Print (CHR 0x0A # replicate 60 (CHR ''='')),
      Print ''KUBERNETES AUTOSCALING MONITOR'',
      Print (replicate 60 (CHR ''='')),
      Print (ljust 20 ''Time'' @ '' '' @ ljust 6 ''Pods'' @ '' '' @ ljust 6 ''CPU%'' @ '' ''
             @ ljust 8 ''Desired'' @ '' '' @ ''Status''),
      Print (replicate 60 (CHR ''-''))]"

definition scaling_status :: "hpa_status \<Rightarrow> string" where
  "scaling_status hpa =
     (if desired_replicas hpa > current_replicas hpa then ''Scaling Up''
      else if desired_replicas hpa < current_replicas hpa then ''Scaling Down''
      else ''Stable'')"

definition monitor_tick :: "demo \<Rightarrow> tick_env \<Rightarrow> unit io" where
  "monitor_tick self env =
     io_bind (get_pod_count self (subprocess_run env)) (\<lambda>pod_count.
     io_bind (get_hpa_status self (subprocess_run env)) (\<lambda>hpa.
       emit [PrintStatus (strftime_now env) pod_count (cpu_utilization hpa)
               (desired_replicas hpa) (scaling_status hpa),
             TimeSleep 10]))"

fun monitor_loop :: "demo \<Rightarrow> int \<Rightarrow> real \<Rightarrow> real list \<Rightarrow> tick_env list \<Rightarrow> (unit io) option" where
  "monitor_loop self duration start_time [] envs = None"
| "monitor_loop self duration start_time (now # clock) envs =
     (if now - start_time < of_int duration then
        (case envs of
           [] \<Rightarrow> None
         | env # envs' \<Rightarrow>
             (case monitor_tick self env of
                (evs, Inl e) \<Rightarrow> Some (evs, Inl e)
              | (evs, Inr _) \<Rightarrow>
                  (case monitor_loop self duration start_time clock envs' of
                     None \<Rightarrow> None
                   | Some (evs', r) \<Rightarrow> Some (evs @ evs', r))))
      else Some ([], Inr ()))"

definition monitor_scaling :: "demo \<Rightarrow> int \<Rightarrow> real list \<Rightarrow> tick_env list \<Rightarrow> (unit io) option" where
  "monitor_scaling self duration clock envs =
     (case clock of
        [] \<Rightarrow> None
      | start_time # clock' \<Rightarrow>
          (case monitor_loop self duration start_time clock' envs of
             None \<Rightarrow> None
           | Some (evs, r) \<Rightarrow> Some (monitor_header @ evs, r)))"

section \<open>Scenarios\<close>

text \<open>
  The operating system as the scenarios meet it: \<^verbatim>\<open>sys.executable\<close>, \<^verbatim>\<open>__file__\<close>,
  whether \<^verbatim>\<open>subprocess.Popen\<close> can start a command (it raises otherwise), and what
  \<^verbatim>\<open>subprocess.run\<close> meets for a command. The scenarios call \<^verbatim>\<open>subprocess.run\<close>
  without \<^verbatim>\<open>check\<close>, \<^verbatim>\<open>capture_output\<close> and \<^verbatim>\<open>text\<close>: the return code of the child
  is ignored, and its output is neither captured nor decoded, so the call returns
  normally whenever the child has run.
\<close>

record os_env =
  sys_executable :: string
  script_file :: string
  popen_error :: "string list \<Rightarrow> exn option"
  run_result :: "string list \<Rightarrow> run_outcome"

definition subprocess_Popen :: "os_env \<Rightarrow> string list \<Rightarrow> unit io" where
  "subprocess_Popen os cmd =
     (case popen_error os cmd of
        Some e \<Rightarrow> ([Popen cmd], Inl e)
      | None \<Rightarrow> ([Popen cmd], Inr ()))"

definition subprocess_run_unchecked :: "os_env \<Rightarrow> string list \<Rightarrow> unit io" where
  "subprocess_run_unchecked os cmd =
     (case run_result os cmd of
        NotStarted e \<Rightarrow> ([SubprocessRun cmd], Inl e)
      | Undecodable \<Rightarrow> ([SubprocessRun cmd], Inr ())
      | Completed returncode stdout \<Rightarrow> ([SubprocessRun cmd], Inr ()))"

definition scenario_1_monitor_cmd :: "demo \<Rightarrow> os_env \<Rightarrow> string list" where
  "scenario_1_monitor_cmd self os =
     [sys_executable os, script_file os, ''monitor'', ''--url'', app_url self,
      ''--duration'', ''600'']"

definition scenario_1_load_cmd :: "demo \<Rightarrow> string list" where
  "scenario_1_load_cmd self =
     [''python'', ''load_generator.py'', ''--url'', app_url self, ''--test-type'', ''ramp'', ''--start-rps'', ''5'', ''--end-rps'', ''100'', ''--duration'', ''600'', ''--output'', ''scenario1_results.json'', ''--charts'']"

definition scenario_1_gradual_ramp :: "demo \<Rightarrow> os_env \<Rightarrow> unit io" where
  "scenario_1_gradual_ramp self os =
     io_bind (emit [Print (CHR 0x0A # '' SCENARIO 1: Gradual Load Increase (Scale-Out Demo)''),
                    Print (replicate 70 (CHR ''='')),
                    Print ''This scenario gradually increases load to trigger pod scaling'',
                    Print ''Expected behavior: Pods should scale from 2 to ~8 over 10 minutes'']) (\<lambda>_.
     io_bind (subprocess_Popen os (scenario_1_monitor_cmd self os)) (\<lambda>_.
     io_bind (emit [Print (CHR 0x0A # ''Starting gradual ramp load test...'')]) (\<lambda>_.
     io_bind (subprocess_run_unchecked os (scenario_1_load_cmd self)) (\<lambda>_.
       emit [Terminate, Print (CHR 0x0A # '' Scenario 1 completed!'')]))))"

definition scenario_2_monitor_cmd :: "demo \<Rightarrow> os_env \<Rightarrow> string list" where
  "scenario_2_monitor_cmd self os =
     [sys_executable os, script_file os, ''monitor'', ''--url'', app_url self,
      ''--duration'', ''480'']"

definition scenario_2_load_cmd :: "demo \<Rightarrow> string list" where
  "scenario_2_load_cmd self =
     [''python'', ''load_generator.py'', ''--url'', app_url self, ''--test-type'', ''spike'', ''--rps'', ''10'', ''--spike-rps'', ''150'', ''--spike-duration'', ''60'', ''--duration'', ''480'', ''--output'', ''scenario2_results.json'', ''--charts'']"

definition scenario_2_spike_test :: "demo \<Rightarrow> os_env \<Rightarrow> unit io" where
  "scenario_2_spike_test self os =
     io_bind (emit [Print (CHR 0x0A # '' SCENARIO 2: Load Spikes (Rapid Scaling Demo)''),
                    Print (replicate 70 (CHR ''='')),
                    Print ''This scenario sends periodic load spikes to test rapid scaling'',
                    Print ''Expected behavior: Quick scale-out during spikes, scale-in during quiet periods'']) (\<lambda>_.
     io_bind (subprocess_Popen os (scenario_2_monitor_cmd self os)) (\<lambda>_.
     io_bind (emit [Print (CHR 0x0A # ''Starting spike load test...'')]) (\<lambda>_.
     io_bind (subprocess_run_unchecked os (scenario_2_load_cmd self)) (\<lambda>_.
       emit [Terminate, Print (CHR 0x0A # '' Scenario 2 completed!'')]))))"

definition scenario_3_monitor_cmd :: "demo \<Rightarrow> os_env \<Rightarrow> string list" where
  "scenario_3_monitor_cmd self os =
     [sys_executable os, script_file os, ''monitor'', ''--url'', app_url self,
      ''--duration'', ''300'']"

definition scenario_3_load_cmd :: "demo \<Rightarrow> string list" where
  "scenario_3_load_cmd self =
     [''python'', ''load_generator.py'', ''--url'', app_url self, ''--test-type'', ''constant'', ''--rps'', ''80'', ''--duration'', ''300'', ''--output'', ''scenario3_results.json'', ''--charts'']"

definition scenario_3_sustained_load :: "demo \<Rightarrow> os_env \<Rightarrow> unit io" where
  "scenario_3_sustained_load self os =
     io_bind (emit [Print (CHR 0x0A # '' SCENARIO 3: Sustained High Load (Stability Demo)''),
                    Print (replicate 70 (CHR ''='')),
                    Print ''This scenario maintains high load to test scaling stability'',
                    Print ''Expected behavior: Stable scaling to handle consistent load'']) (\<lambda>_.
     io_bind (subprocess_Popen os (scenario_3_monitor_cmd self os)) (\<lambda>_.
     io_bind (emit [Print (CHR 0x0A # ''Starting sustained load test...'')]) (\<lambda>_.
     io_bind (subprocess_run_unchecked os (scenario_3_load_cmd self)) (\<lambda>_.
       emit [Terminate, Print (CHR 0x0A # '' Scenario 3 completed!'')]))))"

text \<open>
  Scenario 4 issues its requests itself. A task is named by its position in \<^verbatim>\<open>tasks\<close>.
  What each request comes to (a response status, or the exception the task ends with) is
  given by \<open>outcome\<close>. \<^verbatim>\<open>asyncio.gather\<close> waits for all its awaitables; with
  \<^verbatim>\<open>return_exceptions=True\<close> their exceptions are returned in the result list, and
  without it an exception of an awaitable is raised to the caller (here the one of the
  first failed awaitable of the list). Opening and closing the client session are not
  recorded as events.
\<close>

definition gather :: "bool \<Rightarrow> (exn + 'r) list \<Rightarrow> (exn + 'r) list io" where
  "gather return_exceptions settled =
     ([Gather (length settled) return_exceptions],
      if return_exceptions then Inr settled
      else (case [e. Inl e \<leftarrow> settled] of
              [] \<Rightarrow> Inr settled
            | e # _ \<Rightarrow> Inl e))"

fun launch_requests :: "demo \<Rightarrow> nat list \<Rightarrow> nat list \<Rightarrow> event list \<times> nat list" where
  "launch_requests self [] tasks = ([], tasks)"
| "launch_requests self (i # todo) tasks =
     (case launch_requests self todo (tasks @ [length tasks]) of
        (evs, tasks') \<Rightarrow>
          (CreateTask (app_url self @ ''/api/cpu-intensive'') 500000 # AsyncSleep (1 / 10) # evs,
           tasks'))"

definition cpu_intensive_load :: "demo \<Rightarrow> (nat \<Rightarrow> exn + int) \<Rightarrow> unit io" where
  "cpu_intensive_load self outcome =
     (case launch_requests self [0..<50] [] of
        (evs, tasks) \<Rightarrow>
          io_bind (emit evs) (\<lambda>_.
          io_bind (gather True (map outcome tasks)) (\<lambda>_.
            emit [])))"

definition scenario_4_monitor_cmd :: "demo \<Rightarrow> os_env \<Rightarrow> string list" where
  "scenario_4_monitor_cmd self os =
     [sys_executable os, script_file os, ''monitor'', ''--url'', app_url self,
      ''--duration'', ''180'']"

definition scenario_4_cpu_intensive :: "demo \<Rightarrow> os_env \<Rightarrow> (nat \<Rightarrow> exn + int) \<Rightarrow> unit io" where
  "scenario_4_cpu_intensive self os outcome =
     io_bind (emit [Print (CHR 0x0A # '' SCENARIO 4: CPU-Intensive Load (CPU-Based Scaling)''),
                    Print (replicate 70 (CHR ''='')),
                    Print ''This scenario sends CPU-intensive requests to trigger CPU-based autoscaling'',
                    Print ''Expected behavior: Scaling based on CPU utilization metrics'']) (\<lambda>_.
     io_bind (subprocess_Popen os (scenario_4_monitor_cmd self os)) (\<lambda>_.
     io_bind (emit [Print (CHR 0x0A # ''Starting CPU-intensive load test...'')]) (\<lambda>_.
     io_bind (cpu_intensive_load self outcome) (\<lambda>_.
       emit [Terminate, Print (CHR 0x0A # '' Scenario 4 completed!'')]))))"

section \<open>The demo report\<close>

text \<open>
  A result file as \<^verbatim>\<open>generate_demo_report\<close> reads it: the dictionary \<^verbatim>\<open>stats\<close> (its
  keys are distinct) and the list \<^verbatim>\<open>results\<close>, whose entries carry a response time
  and a status code that may be \<^verbatim>\<open>None\<close>. Opening and decoding a file has three
  outcomes: the file does not exist (\<^verbatim>\<open>open\<close> raises \<^verbatim>\<open>FileNotFoundError\<close>), some
  other exception ends \<^verbatim>\<open>open\<close>, \<^verbatim>\<open>json.load\<close> or the reading of the two keys, or
  the data is there. Multiplication of response times is on the reals: floating-point
  rounding is not modelled, and neither is the rendering of the figure.
\<close>

record request_result =
  response_time :: real
  status_code :: "int option"

record scenario_data =
  stats :: "(string \<times> real) list"
  results :: "request_result list"

datatype load_outcome = Missing | Failed exn | Loaded scenario_data

fun response_times :: "request_result list \<Rightarrow> exn + real list" where
  "response_times [] = Inr []"
| "response_times (r # rs) =
     (case status_code r of
        None \<Rightarrow> Inl TypeError
      | Some code \<Rightarrow>
          (case response_times rs of
             Inl e \<Rightarrow> Inl e
           | Inr ts \<Rightarrow> Inr (if code < 400 then response_time r * 1000 # ts else ts)))"

definition scenarios :: "(string \<times> string) list" where
  "scenarios =
     [(''scenario1_results.json'', ''Gradual Ramp''),
      (''scenario2_results.json'', ''Load Spikes''),
      (''scenario3_results.json'', ''Sustained Load'')]"

text \<open>The body of the loop over the scenarios, with its \<^verbatim>\<open>try\<close> and \<^verbatim>\<open>except\<close>.\<close>

definition plot_scenario :: "nat \<Rightarrow> string \<times> string \<Rightarrow> load_outcome \<Rightarrow> unit io" where
  "plot_scenario i scenario opened =
     (case opened of
        Missing \<Rightarrow> ([PrintNotFound (fst scenario)], Inr ())
      | Failed e \<Rightarrow> ([], Inl e)
      | Loaded data \<Rightarrow>
          (let ax = (if i < 3 then Some (i div 2, i mod 2) else None) in
           case ax of
             None \<Rightarrow> ([], Inr ())
           | Some pos \<Rightarrow>
               if stats data \<noteq> [] then
                 (case response_times (results data) of
                    Inl e \<Rightarrow> ([], Inl e)
                  | Inr ts \<Rightarrow>
                      (case map_of (stats data) ''average_response_time'' of
                         None \<Rightarrow> ([Hist pos ts], Inl KeyError)
                       | Some avg \<Rightarrow>
                           ([Hist pos ts, SetTitle pos (snd scenario) (avg * 1000)], Inr ())))
               else ([], Inr ())))"

fun plot_all :: "(string \<Rightarrow> load_outcome) \<Rightarrow> (nat \<times> string \<times> string) list \<Rightarrow> unit io" where
  "plot_all open_json [] = ([], Inr ())"
| "plot_all open_json ((i, scenario) # rest) =
     io_bind (plot_scenario i scenario (open_json (fst scenario))) (\<lambda>_.
       plot_all open_json rest)"

definition generate_demo_report :: "(string \<Rightarrow> load_outcome) \<Rightarrow> unit io" where
  "generate_demo_report open_json =
     io_bind (emit [Print (CHR 0x0A # '' GENERATING DEMO REPORT''),
                    Print (replicate 50 (CHR ''='')),
                    Subplots]) (\<lambda>_.
     io_bind (plot_all open_json (zip [0..<length scenarios] scenarios)) (\<lambda>_.
       emit [SummaryText,
             SaveFig ''autoscaling_demo_report.png'',
             Print ''Demo report saved to: autoscaling_demo_report.png'']))"

section \<open>The command line\<close>

datatype command = Scenario1 | Scenario2 | Scenario3 | Scenario4 | All | Monitor | Report

record args =
  arg_command :: command
  arg_url :: string
  arg_kubectl_context :: "string option"
  arg_duration :: int

record world =
  w_os :: os_env
  w_request_outcome :: "nat \<Rightarrow> exn + int"
  w_clock :: "real list"
  w_ticks :: "tick_env list"
  w_open_json :: "string \<Rightarrow> load_outcome"

definition main :: "args \<Rightarrow> world \<Rightarrow> (unit io) option" where
  "main a w =
     (let demo = init_demo (arg_url a) (arg_kubectl_context a) in
      case arg_command a of
        Scenario1 \<Rightarrow> Some (scenario_1_gradual_ramp demo (w_os w))
      | Scenario2 \<Rightarrow> Some (scenario_2_spike_test demo (w_os w))
      | Scenario3 \<Rightarrow> Some (scenario_3_sustained_load demo (w_os w))
      | Scenario4 \<Rightarrow> Some (scenario_4_cpu_intensive demo (w_os w) (w_request_outcome w))
      | All \<Rightarrow> Some (
          io_bind (emit [Print '' RUNNING ALL AUTOSCALING DEMO SCENARIOS'',
                         Print (replicate 70 (CHR ''=''))]) (\<lambda>_.
          io_bind (scenario_1_gradual_ramp demo (w_os w)) (\<lambda>_.
          io_bind (emit [AsyncSleep 30]) (\<lambda>_.
          io_bind (scenario_2_spike_test demo (w_os w)) (\<lambda>_.
          io_bind (emit [AsyncSleep 30]) (\<lambda>_.
          io_bind (scenario_3_sustained_load demo (w_os w)) (\<lambda>_.
          io_bind (emit [AsyncSleep 30]) (\<lambda>_.
          io_bind (scenario_4_cpu_intensive demo (w_os w) (w_request_outcome w)) (\<lambda>_.
            generate_demo_report (w_open_json w))))))))))
      | Monitor \<Rightarrow> monitor_scaling demo (arg_duration a) (w_clock w) (w_ticks w)
      | Report \<Rightarrow> Some (generate_demo_report (w_open_json w)))"

section \<open>Notions used to state the properties\<close>

text \<open>
  The number of lines of a text: every newline ends a line, and characters after the
  last newline form one more line.
\<close>

fun lines_from :: "bool \<Rightarrow> string \<Rightarrow> nat" where
  "lines_from pending [] = (if pending then 1 else 0)"
| "lines_from pending (c # cs) =
     (if c = CHR 0x0A then Suc (lines_from False cs) else lines_from True cs)"

definition line_count :: "string \<Rightarrow> nat" where
  "line_count text = lines_from False text"

text \<open>A status line built from its fields, and the value a field stands for.\<close>

fun join_fields :: "string list \<Rightarrow> string" where
  "join_fields [] = []"
| "join_fields [f] = f"
| "join_fields (f # g # fs) = f @ CHR '','' # join_fields (g # fs)"

definition field_or_zero :: "string list \<Rightarrow> nat \<Rightarrow> int \<Rightarrow> bool" where
  "field_or_zero fs i v =
     (if i < length fs \<and> fs ! i \<noteq> [] then py_int (fs ! i) = Inr v else v = 0)"

definition zero_status :: hpa_status where
  "zero_status = \<lparr> current_replicas = 0, desired_replicas = 0, cpu_utilization = 0 \<rparr>"

text \<open>The events that only a pass of the polling loop causes.\<close>

fun polling_event :: "event \<Rightarrow> bool" where
  "polling_event (SubprocessRun cmd) = True"
| "polling_event (PrintKubectlError cmd rc) = True"
| "polling_event (PrintStatus t pods cpu desired status) = True"
| "polling_event (TimeSleep secs) = True"
| "polling_event e = False"

text \<open>
  The orchestrator has joined the monitor when, after signalling it, it waits for the
  child to exit.
\<close>

definition joined_after_terminate :: "event list \<Rightarrow> bool" where
  "joined_after_terminate evs = (Wait \<in> set (dropWhile (\<lambda>e. e \<noteq> Terminate) evs))"



text \<open>
  The calls of a trace that start a child process, in order; and a clock, given by its
  readings, that has passed a number of seconds: some reading after the first is at
  least that many seconds later than the first.
\<close>

fun process_calls :: "event list \<Rightarrow> event list" where
  "process_calls [] = []"
| "process_calls (Popen cmd # evs) = Popen cmd # process_calls evs"
| "process_calls (SubprocessRun cmd # evs) = SubprocessRun cmd # process_calls evs"
| "process_calls (e # evs) = process_calls evs"



text \<open>
  What a report shows: the files reported as not found, the subplots that got a
  histogram, whether an opened file leads to a histogram, and data that the loop body
  can plot without an exception.
\<close>

fun not_found_files :: "event list \<Rightarrow> string list" where
  "not_found_files [] = []"
| "not_found_files (PrintNotFound f # evs) = f # not_found_files evs"
| "not_found_files (e # evs) = not_found_files evs"

fun hist_positions :: "event list \<Rightarrow> (nat \<times> nat) list" where
  "hist_positions [] = []"
| "hist_positions (Hist pos ts # evs) = pos # hist_positions evs"
| "hist_positions (e # evs) = hist_positions evs"

fun plots :: "load_outcome \<Rightarrow> bool" where
  "plots (Loaded data) = (stats data \<noteq> [])"
| "plots opened = False"

definition well_formed :: "scenario_data \<Rightarrow> bool" where
  "well_formed data =
     (stats data = []
      \<or> (map_of (stats data) ''average_response_time'' \<noteq> None
          \<and> list_all (\<lambda>r. status_code r \<noteq> None) (results data)))"

definition readable :: "load_outcome \<Rightarrow> bool" where
  "readable opened =
     (case opened of Missing \<Rightarrow> True | Failed e \<Rightarrow> False | Loaded data \<Rightarrow> well_formed data)"

text \<open>Concrete environments, for instances of the theorems.\<close>

definition demo_local :: demo where
  "demo_local = init_demo ''http://localhost:8080'' None"

definition newline :: string where
  "newline = [CHR 0x0A]"

definition kubectl_healthy :: "string list \<Rightarrow> run_outcome" where
  "kubectl_healthy cmd =
     (if cmd = ''kubectl'' # pods_cmd
      then Completed 0 (''cloudapp-7d9f-abcde'' @ newline @ ''cloudapp-7d9f-fghij'' @ newline)
      else Completed 0 ''2,3,'')"

definition kubectl_malformed :: "string list \<Rightarrow> run_outcome" where
  "kubectl_malformed cmd = Completed 0 ''2,x,50''"

definition kubectl_failing :: "string list \<Rightarrow> run_outcome" where
  "kubectl_failing cmd = Completed 1 []"

definition kubectl_undecodable :: "string list \<Rightarrow> run_outcome" where
  "kubectl_undecodable cmd = Undecodable"

definition kubectl_missing :: "string list \<Rightarrow> run_outcome" where
  "kubectl_missing cmd = NotStarted FileNotFoundError"

definition tick_healthy :: tick_env where
  "tick_healthy = \<lparr> subprocess_run = kubectl_healthy, strftime_now = ''12:00:00'' \<rparr>"

definition os_ok :: os_env where
  "os_ok = \<lparr> sys_executable = ''/usr/bin/python3'', script_file = ''demo_scenarios.py'',
             popen_error = (\<lambda>cmd. None), run_result = (\<lambda>cmd. Completed 0 []) \<rparr>"

definition all_ok :: "nat \<Rightarrow> exn + int" where
  "all_ok i = Inr 200"

definition one_failing :: "nat \<Rightarrow> exn + int" where
  "one_failing i = (if i = 3 then Inl ClientError else Inr 200)"

definition good_data :: scenario_data where
  "good_data =
     \<lparr> stats = [(''average_response_time'', 1 / 100)],
       results = [\<lparr> response_time = 1 / 100, status_code = Some 200 \<rparr>,
                  \<lparr> response_time = 1 / 2, status_code = Some 500 \<rparr>] \<rparr>"

definition only_scenario2 :: "string \<Rightarrow> load_outcome" where
  "only_scenario2 filename =
     (if filename = ''scenario2_results.json'' then Loaded good_data else Missing)"

definition world_ok :: world where
  "world_ok = \<lparr> w_os = os_ok, w_request_outcome = all_ok, w_clock = [], w_ticks = [],
                w_open_json = only_scenario2 \<rparr>"



definition args_all :: args where
  "args_all = \<lparr> arg_command = All, arg_url = ''http://localhost:8080'',
                arg_kubectl_context = None, arg_duration = 300 \<rparr>"

section \<open>Facts about the string primitives\<close>

lemma split_on_not_Nil: "split_on sep s \<noteq> []"
  by (induction s) (auto split: list.splits)

lemma length_split_on: "length (split_on sep s) = Suc (count_list s sep)"
  by (induction s) (auto split: list.splits simp: split_on_not_Nil)

lemma split_on_no_sep: "sep \<notin> set f \<Longrightarrow> split_on sep f = [f]"
  by (induction f) auto

lemma split_on_append_sep:
  "sep \<notin> set f \<Longrightarrow> split_on sep (f @ sep # rest) = f # split_on sep rest"
  by (induction f) (auto split: list.splits)

lemma lines_from_count:
  "lines_from pending s =
     count_list s (CHR 0x0A)
     + (if (s = [] \<and> pending) \<or> (s \<noteq> [] \<and> last s \<noteq> CHR 0x0A) then 1 else 0)"
  by (induction s arbitrary: pending) auto

lemma strip_last_not_space: "strip s \<noteq> [] \<Longrightarrow> \<not> py_isspace (last (strip s))"
proof -
  assume ne: "strip s \<noteq> []"
  let ?r = "dropWhile py_isspace (rev (dropWhile py_isspace s))"
  from ne have r: "?r \<noteq> []" by (simp add: strip_def)
  then have "\<not> py_isspace (hd ?r)" by (rule hd_dropWhile)
  moreover have "last (strip s) = hd ?r" using r by (simp add: strip_def last_rev)
  ultimately show ?thesis by simp
qed

lemma newline_isspace: "py_isspace (CHR 0x0A)"
  by (simp add: py_isspace_def)

lemma py_int_cases: "py_int s = Inl ValueError \<or> (\<exists>v. py_int s = Inr v)"
  by (simp add: py_int_def Let_def)

lemma digits_ok_chars: "digits_ok body \<Longrightarrow> c \<in> set body \<Longrightarrow> is_digit c \<or> c = CHR ''_''"
  by (induction body rule: digits_ok.induct) (auto split: if_splits)

lemma set_trim:
  "c \<in> set s \<Longrightarrow> P c \<or> c \<in> set (rev (dropWhile P (rev (dropWhile P s))))"
proof -
  assume c: "c \<in> set s"
  let ?u = "dropWhile P s"
  have "set s = set (takeWhile P s) \<union> set ?u"
    by (metis set_append takeWhile_dropWhile_id)
  moreover have "set ?u = set (takeWhile P (rev ?u)) \<union> set (dropWhile P (rev ?u))"
    by (metis set_append set_rev takeWhile_dropWhile_id)
  ultimately have "c \<in> set (takeWhile P s) \<or> c \<in> set (takeWhile P (rev ?u))
      \<or> c \<in> set (dropWhile P (rev ?u))"
    using c by auto
  then show ?thesis by (auto dest: set_takeWhileD)
qed

lemma py_int_no_comma:
  assumes "py_int f = Inr v"
  shows "CHR '','' \<notin> set f"
proof
  assume c: "CHR '','' \<in> set f"
  let ?t = "rev (dropWhile int_isspace (rev (dropWhile int_isspace f)))"
  let ?body = "if ?t \<noteq> [] \<and> (hd ?t = CHR ''-'' \<or> hd ?t = CHR ''+'') then tl ?t else ?t"
  have ok: "digits_ok ?body"
    using assms unfolding py_int_def Let_def by (simp only: split: if_splits) simp_all
  have "\<not> int_isspace (CHR '','')" by (simp add: int_isspace_def)
  with set_trim [OF c, of int_isspace] have t: "CHR '','' \<in> set ?t" by blast
  then have "CHR '','' \<in> set ?body"
    by (cases ?t) (auto split: if_splits)
  from digits_ok_chars [OF ok this] show False by (simp add: is_digit_def)
qed

lemma split_on_join_fields:
  "fs \<noteq> [] \<Longrightarrow> \<forall>f\<in>set fs. CHR '','' \<notin> set f \<Longrightarrow>
   split_on (CHR '','') (join_fields fs) = fs"
  by (induction fs rule: join_fields.induct) (simp_all add: split_on_no_sep split_on_append_sep)

lemma join_fields_Nil: "join_fields fs = [] \<Longrightarrow> fs = [] \<or> fs = [[]]"
  by (induction fs rule: join_fields.induct) auto

lemmas env_defs = demo_local_def init_demo_def kubectl_healthy_def kubectl_malformed_def
  kubectl_failing_def tick_healthy_def newline_def pods_cmd_def hpa_cmd_def

lemmas py_defs = strip_def py_isspace_def py_int_def int_isspace_def is_digit_def
  digits_value_def digit_val_def default_max_str_digits_def

section \<open>The cluster status queries\<close>

lemma run_kubectl_output:
  "run_kubectl self sub cmd = (evs, Inr output) \<Longrightarrow> output = [] \<or> \<not> py_isspace (last output)"
  by (auto simp: run_kubectl_def Let_def strip_last_not_space split: run_outcome.splits if_splits)

lemma run_kubectl_healthy_pods:
  "run_kubectl demo_local kubectl_healthy pods_cmd =
     ([SubprocessRun (''kubectl'' # pods_cmd)],
      Inr (''cloudapp-7d9f-abcde'' @ newline @ ''cloudapp-7d9f-fghij''))"
  by (simp add: run_kubectl_def env_defs py_defs)

lemma run_kubectl_healthy_hpa:
  "run_kubectl demo_local kubectl_healthy hpa_cmd =
     ([SubprocessRun (''kubectl'' # hpa_cmd)], Inr (join_fields [''2'', ''3'', []]))"
  by (simp add: run_kubectl_def env_defs py_defs)

lemma py_int_2_3: "py_int ''2'' = Inr 2" "py_int ''3'' = Inr 3"
  by (simp_all add: py_defs)

text \<open>
  C5. The pod count is the number of lines of the listing that \<^verbatim>\<open>run_kubectl\<close>
  returns, whatever that string is; for the empty listing it is 0.
\<close>

theorem get_pod_count_is_line_count:
  assumes "run_kubectl self sub pods_cmd = (evs, Inr output)"
  shows "get_pod_count self sub = (evs, Inr (int (line_count output)))"
proof (cases "output = []")
  case True
  with assms show ?thesis by (simp add: get_pod_count_def io_bind_def line_count_def)
next
  case False
  with run_kubectl_output [OF assms] have "last output \<noteq> CHR 0x0A"
    using newline_isspace by metis
  with False have "length (split_on (CHR 0x0A) output) = line_count output"
    by (simp add: length_split_on lines_from_count line_count_def)
  with False assms show ?thesis by (simp add: get_pod_count_def io_bind_def)
qed

theorem get_pod_count_is_line_count_witness:
  "run_kubectl demo_local kubectl_healthy pods_cmd =
     ([SubprocessRun (''kubectl'' # pods_cmd)],
      Inr (''cloudapp-7d9f-abcde'' @ newline @ ''cloudapp-7d9f-fghij''))
   \<and> get_pod_count demo_local kubectl_healthy = ([SubprocessRun (''kubectl'' # pods_cmd)], Inr 2)"
  using get_pod_count_is_line_count [OF run_kubectl_healthy_pods]
  by (simp add: run_kubectl_healthy_pods line_count_def newline_def)

lemma strip_trailing_newline:
  assumes "s \<noteq> []" and "\<not> py_isspace (hd s)" and "\<not> py_isspace (last s)"
  shows "strip (s @ [CHR 0x0A]) = s"
proof -
  have front: "dropWhile py_isspace (s @ [CHR 0x0A]) = s @ [CHR 0x0A]"
    using assms(1,2) by (cases s) simp_all
  have "rev s \<noteq> []" and "\<not> py_isspace (hd (rev s))"
    using assms(1,3) by (simp_all add: hd_rev)
  then have "dropWhile py_isspace (rev s) = rev s" by (cases "rev s") simp_all
  then show ?thesis by (simp add: strip_def front newline_isspace)
qed

lemma count_newlines_listing:
  "\<forall>l\<in>set ids. CHR 0x0A \<notin> set l \<Longrightarrow>
   count_list (concat (map (\<lambda>l. l @ [CHR 0x0A]) ids)) (CHR 0x0A) = length ids"
  by (induction ids) (simp_all add: count_list_0_iff)

lemma hd_listing:
  "ids \<noteq> [] \<Longrightarrow> hd ids \<noteq> [] \<Longrightarrow> hd (concat (map (\<lambda>l. l @ [CHR 0x0A]) ids)) = hd (hd ids)"
  by (cases ids) simp_all

text \<open>
  In particular, for a listing of identifiers, one per line and each line ended by a
  newline, the count is the number of identifiers.
\<close>

lemma get_pod_count_of_listing:
  assumes run: "sub (kubectl_cmd self @ pods_cmd) = Completed 0 (concat (map (\<lambda>l. l @ [CHR 0x0A]) ids))"
    and ids: "\<forall>l\<in>set ids. l \<noteq> [] \<and> CHR 0x0A \<notin> set l"
    and ends: "ids \<noteq> [] \<longrightarrow> \<not> py_isspace (hd (hd ids)) \<and> \<not> py_isspace (last (last ids))"
  shows "snd (get_pod_count self sub) = Inr (int (length ids))"
proof (cases "ids = []")
  case True
  with run show ?thesis
    by (simp add: get_pod_count_def run_kubectl_def io_bind_def strip_def)
next
  case False
  define s where "s = concat (map (\<lambda>l. l @ [CHR 0x0A]) (butlast ids)) @ last ids"
  have whole: "concat (map (\<lambda>l. l @ [CHR 0x0A]) ids) = s @ [CHR 0x0A]"
  proof -
    have "ids = butlast ids @ [last ids]" using False by simp
    then have "concat (map (\<lambda>l. l @ [CHR 0x0A]) ids)
        = concat (map (\<lambda>l. l @ [CHR 0x0A]) (butlast ids @ [last ids]))" by simp
    then show ?thesis by (simp add: s_def)
  qed
  have lastne: "last ids \<noteq> []" using ids False by (meson last_in_set)
  have hdne: "hd ids \<noteq> []" using ids False by (meson hd_in_set)
  have sne: "s \<noteq> []" using lastne by (simp add: s_def)
  have "hd (s @ [CHR 0x0A]) = hd (hd ids)"
    using hd_listing [OF False hdne] whole by simp
  then have hds: "hd s = hd (hd ids)" using sne by simp
  have lasts: "last s = last (last ids)" using lastne by (simp add: s_def)
  have st: "strip (s @ [CHR 0x0A]) = s"
    using strip_trailing_newline [OF sne] ends False hds lasts by simp
  have "count_list (s @ [CHR 0x0A]) (CHR 0x0A) = length ids"
    using count_newlines_listing [of ids] ids whole by simp
  then have "Suc (count_list s (CHR 0x0A)) = length ids" by simp
  then have "length (split_on (CHR 0x0A) s) = length ids" by (simp add: length_split_on)
  with run whole st sne show ?thesis
    by (simp add: get_pod_count_def run_kubectl_def io_bind_def)
qed

text \<open>
  C4. When the status line that \<^verbatim>\<open>run_kubectl\<close> returns is made of comma-separated
  fields, each empty or an integer literal, \<^verbatim>\<open>get_hpa_status\<close> returns a record of
  all three keys: each key holds the value of its field, and 0 when the field is empty or
  missing at the end of the line.
\<close>

theorem get_hpa_status_fields:
  assumes run: "run_kubectl self sub hpa_cmd = (evs, Inr (join_fields fs))"
    and fields: "\<forall>f\<in>set fs. f = [] \<or> (\<exists>v. py_int f = Inr v)"
  shows "\<exists>cur des cpu.
           get_hpa_status self sub =
             (evs, Inr \<lparr> current_replicas = cur, desired_replicas = des, cpu_utilization = cpu \<rparr>)
           \<and> field_or_zero fs 0 cur \<and> field_or_zero fs 1 des \<and> field_or_zero fs 2 cpu"
proof (cases "join_fields fs = []")
  case True
  then have "fs = [] \<or> fs = [[]]" by (rule join_fields_Nil)
  then have "field_or_zero fs 0 0 \<and> field_or_zero fs 1 0 \<and> field_or_zero fs 2 0"
    by (auto simp: field_or_zero_def)
  moreover have "get_hpa_status self sub =
      (evs, Inr \<lparr> current_replicas = 0, desired_replicas = 0, cpu_utilization = 0 \<rparr>)"
    using run True by (simp add: get_hpa_status_def io_bind_def)
  ultimately show ?thesis by blast
next
  case False
  then have ne: "fs \<noteq> []" by auto
  have "\<forall>f\<in>set fs. CHR '','' \<notin> set f"
    using fields py_int_no_comma by fastforce
  with ne have parts: "split_on (CHR '','') (join_fields fs) = fs"
    by (rule split_on_join_fields)
  have val: "\<exists>v. field_or_zero fs i v \<and>
               (if i < length fs \<and> fs ! i \<noteq> [] then py_int (fs ! i) else Inr 0) = Inr v" for i
    using fields by (auto simp: field_or_zero_def dest: nth_mem)
  obtain cur where cur: "field_or_zero fs 0 cur"
      "(if 0 < length fs \<and> fs ! 0 \<noteq> [] then py_int (fs ! 0) else Inr 0) = Inr cur"
    using val [of 0] by blast
  obtain des where des: "field_or_zero fs 1 des"
      "(if 1 < length fs \<and> fs ! 1 \<noteq> [] then py_int (fs ! 1) else Inr 0) = Inr des"
    using val [of 1] by blast
  obtain cpu where cpu: "field_or_zero fs 2 cpu"
      "(if 2 < length fs \<and> fs ! 2 \<noteq> [] then py_int (fs ! 2) else Inr 0) = Inr cpu"
    using val [of 2] by blast
  have c0: "(if fs ! 0 \<noteq> [] then py_int (fs ! 0) else Inr 0) = Inr cur"
    using cur(2) ne by simp
  have "get_hpa_status self sub =
      (evs, Inr \<lparr> current_replicas = cur, desired_replicas = des, cpu_utilization = cpu \<rparr>)"
    using run False parts c0 des(2) cpu(2)
    by (simp add: get_hpa_status_def io_bind_def Let_def)
  with cur(1) des(1) cpu(1) show ?thesis by blast
qed

theorem get_hpa_status_fields_witness:
  "get_hpa_status demo_local kubectl_healthy =
     ([SubprocessRun (''kubectl'' # hpa_cmd)],
      Inr \<lparr> current_replicas = 2, desired_replicas = 3, cpu_utilization = 0 \<rparr>)"
  using get_hpa_status_fields [OF run_kubectl_healthy_hpa]
  by (auto simp: field_or_zero_def py_int_2_3)

text \<open>
  C2, as stated, fails: when kubectl exits with code 0 and prints a field that is not an
  integer, \<^verbatim>\<open>int\<close> raises \<^verbatim>\<open>ValueError\<close> and \<^verbatim>\<open>get_hpa_status\<close> lets it through.
\<close>

theorem get_hpa_status_malformed_raises:
  "snd (get_hpa_status demo_local kubectl_malformed) = Inl ValueError"
  by (simp add: get_hpa_status_def run_kubectl_def io_bind_def env_defs py_defs)

text \<open>
  What \<^verbatim>\<open>get_hpa_status\<close> does when kubectl has run and its output has decoded.
\<close>

lemma get_hpa_status_completed:
  assumes "sub (kubectl_cmd self @ hpa_cmd) = Completed rc out"
  shows "(rc \<noteq> 0 \<or> strip out = [] \<longrightarrow> snd (get_hpa_status self sub) = Inr zero_status)
       \<and> (snd (get_hpa_status self sub) = Inl ValueError
            \<or> (\<exists>h. snd (get_hpa_status self sub) = Inr h))
       \<and> (snd (get_hpa_status self sub) = Inl ValueError \<longleftrightarrow>
            rc = 0 \<and> (\<exists>i<3. i < length (split_on (CHR '','') (strip out))
                        \<and> split_on (CHR '','') (strip out) ! i \<noteq> []
                        \<and> py_int (split_on (CHR '','') (strip out) ! i) = Inl ValueError))"
proof (cases "rc \<noteq> 0 \<or> strip out = []")
  case True
  then have "snd (get_hpa_status self sub) = Inr zero_status"
    using assms
    by (auto simp: get_hpa_status_def run_kubectl_def io_bind_def zero_status_def Let_def)
  moreover have "\<not> (rc = 0 \<and> (\<exists>i<3. i < length (split_on (CHR '','') (strip out))
                        \<and> split_on (CHR '','') (strip out) ! i \<noteq> []
                        \<and> py_int (split_on (CHR '','') (strip out) ! i) = Inl ValueError))"
    using True by auto
  ultimately show ?thesis by simp
next
  case False
  define parts where "parts = split_on (CHR '','') (strip out)"
  have ne: "parts \<noteq> []" by (simp add: parts_def split_on_not_Nil)
  have three: "(\<exists>i<3. P i) \<longleftrightarrow> P 0 \<or> P 1 \<or> P (2::nat)" for P
    by (auto simp: numeral_3_eq_3 numeral_2_eq_2 less_Suc_eq)
  have run: "run_kubectl self sub hpa_cmd =
      ([SubprocessRun (kubectl_cmd self @ hpa_cmd)], Inr (strip out))"
    using assms False by (simp add: run_kubectl_def)
  show ?thesis
    using False ne py_int_cases [of "parts ! 0"] py_int_cases [of "parts ! 1"]
      py_int_cases [of "parts ! 2"]
    unfolding three
    by (auto simp: get_hpa_status_def run io_bind_def Let_def parts_def [symmetric])
qed

text \<open>
  C2, amended. An exception that \<^verbatim>\<open>subprocess.run\<close> raises other than
  \<^verbatim>\<open>CalledProcessError\<close> leaves \<^verbatim>\<open>get_hpa_status\<close>: the one raised when kubectl
  cannot be started, and \<^verbatim>\<open>UnicodeDecodeError\<close> when its output does not decode,
  whatever its exit code. When kubectl has run and its output has decoded, a non-zero
  exit or an empty output gives the all-zero sample; with exit code 0, the call raises
  \<^verbatim>\<open>ValueError\<close> exactly when one of the first three fields of the output is
  non-empty and rejected by \<^verbatim>\<open>int\<close>, and returns a sample otherwise.
\<close>

theorem get_hpa_status_failure_modes:
  "(sub (kubectl_cmd self @ hpa_cmd) = NotStarted e \<longrightarrow>
      snd (get_hpa_status self sub) = Inl e)
 \<and> (sub (kubectl_cmd self @ hpa_cmd) = Undecodable \<longrightarrow>
      snd (get_hpa_status self sub) = Inl UnicodeDecodeError)
 \<and> (sub (kubectl_cmd self @ hpa_cmd) = Completed rc out \<longrightarrow>
      (rc \<noteq> 0 \<or> strip out = [] \<longrightarrow> snd (get_hpa_status self sub) = Inr zero_status)
    \<and> (snd (get_hpa_status self sub) = Inl ValueError
         \<or> (\<exists>h. snd (get_hpa_status self sub) = Inr h))
    \<and> (snd (get_hpa_status self sub) = Inl ValueError \<longleftrightarrow>
         rc = 0 \<and> (\<exists>i<3. i < length (split_on (CHR '','') (strip out))
                     \<and> split_on (CHR '','') (strip out) ! i \<noteq> []
                     \<and> py_int (split_on (CHR '','') (strip out) ! i) = Inl ValueError)))"
proof -
  have a: "sub (kubectl_cmd self @ hpa_cmd) = NotStarted e \<longrightarrow>
      snd (get_hpa_status self sub) = Inl e"
    by (simp add: get_hpa_status_def run_kubectl_def io_bind_def)
  have b: "sub (kubectl_cmd self @ hpa_cmd) = Undecodable \<longrightarrow>
      snd (get_hpa_status self sub) = Inl UnicodeDecodeError"
    by (simp add: get_hpa_status_def run_kubectl_def io_bind_def)
  from a b get_hpa_status_completed [of sub self rc out] show ?thesis by blast
qed

theorem get_hpa_status_failure_modes_witness:
  "snd (get_hpa_status demo_local kubectl_failing) = Inr zero_status
   \<and> snd (get_hpa_status demo_local kubectl_undecodable) = Inl UnicodeDecodeError
   \<and> snd (get_hpa_status demo_local kubectl_missing) = Inl FileNotFoundError"
  using get_hpa_status_failure_modes [of kubectl_failing demo_local FileNotFoundError 1 "[]"]
    get_hpa_status_failure_modes [of kubectl_undecodable demo_local FileNotFoundError 1 "[]"]
    get_hpa_status_failure_modes [of kubectl_missing demo_local FileNotFoundError 1 "[]"]
  by (simp add: kubectl_failing_def kubectl_undecodable_def kubectl_missing_def)

section \<open>The monitor\<close>

lemma get_pod_count_healthy:
  "get_pod_count demo_local (subprocess_run tick_healthy) =
     ([SubprocessRun (''kubectl'' # pods_cmd)], Inr 2)"
  by (simp add: get_pod_count_def io_bind_def run_kubectl_healthy_pods tick_healthy_def newline_def)

lemma get_hpa_status_healthy:
  "get_hpa_status demo_local (subprocess_run tick_healthy) =
     ([SubprocessRun (''kubectl'' # hpa_cmd)],
      Inr \<lparr> current_replicas = 2, desired_replicas = 3, cpu_utilization = 0 \<rparr>)"
  by (simp add: get_hpa_status_def io_bind_def run_kubectl_healthy_hpa tick_healthy_def py_int_2_3)

text \<open>
  C3. In every pass of the loop whose two queries return, the label of the status line is
  \<open>Scaling Up\<close> when the desired replicas exceed the current ones, \<open>Scaling Down\<close>
  when they are fewer, and \<open>Stable\<close> otherwise.
\<close>

theorem monitor_tick_status_label:
  assumes "get_pod_count self (subprocess_run env) = (evs1, Inr pods)"
    and "get_hpa_status self (subprocess_run env) = (evs2, Inr hpa)"
  shows "monitor_tick self env =
     (evs1 @ evs2 @
        [PrintStatus (strftime_now env) pods (cpu_utilization hpa) (desired_replicas hpa)
           (if desired_replicas hpa > current_replicas hpa then ''Scaling Up''
            else if desired_replicas hpa < current_replicas hpa then ''Scaling Down''
            else ''Stable''),
         TimeSleep 10],
      Inr ())"
  using assms by (simp add: monitor_tick_def io_bind_def emit_def scaling_status_def)

theorem monitor_tick_status_label_witness:
  "monitor_tick demo_local tick_healthy =
     ([SubprocessRun (''kubectl'' # pods_cmd), SubprocessRun (''kubectl'' # hpa_cmd),
       PrintStatus ''12:00:00'' 2 0 3 ''Scaling Up'', TimeSleep 10],
      Inr ())"
  using monitor_tick_status_label [OF get_pod_count_healthy get_hpa_status_healthy]
  by (simp add: tick_healthy_def)

text \<open>
  C9. For a duration of 0 or less, and a clock that has not gone backwards between its
  first two readings, \<^verbatim>\<open>monitor_scaling\<close> returns after the header: no pass of the loop
  runs, so the events are the five header lines and none of them is a kubectl query, a
  status line or a sleep.
\<close>

theorem monitor_scaling_nonpositive_duration:
  assumes "duration \<le> 0" and "start_time \<le> now"
  shows "monitor_scaling self duration (start_time # now # later) envs = Some (monitor_header, Inr ())
         \<and> filter polling_event monitor_header = []"
proof -
  have "\<not> now - start_time < of_int duration"
  proof -
    have "(of_int duration :: real) \<le> 0" using assms(1) by simp
    with assms(2) show ?thesis by linarith
  qed
  then show ?thesis
    by (simp add: monitor_scaling_def monitor_header_def)
qed

theorem monitor_scaling_nonpositive_duration_witness:
  "monitor_scaling demo_local 0 [100, 100, 110] [tick_healthy] = Some (monitor_header, Inr ())
   \<and> monitor_scaling demo_local (- 5) [100, 101] [] = Some (monitor_header, Inr ())"
  using monitor_scaling_nonpositive_duration [of 0 100 100 demo_local "[110]" "[tick_healthy]"]
    monitor_scaling_nonpositive_duration [of "- 5" 100 101 demo_local "[]" "[]"]
  by simp

section \<open>The scenarios\<close>

lemmas scenario_defs = scenario_1_gradual_ramp_def scenario_2_spike_test_def
  scenario_3_sustained_load_def scenario_4_cpu_intensive_def
  io_bind_def emit_def subprocess_Popen_def subprocess_run_unchecked_def





lemma process_calls_append: "process_calls (xs @ ys) = process_calls xs @ process_calls ys"
  by (induction xs rule: process_calls.induct) simp_all





lemma launch_requests_trace:
  "launch_requests self todo tasks =
     (concat (replicate (length todo)
        [CreateTask (app_url self @ ''/api/cpu-intensive'') 500000, AsyncSleep (1 / 10)]),
      tasks @ [length tasks ..< length tasks + length todo])"
proof (induction todo arbitrary: tasks)
  case Nil
  show ?case by simp
next
  case (Cons i todo)
  have "[length tasks ..< length tasks + Suc (length todo)]
      = length tasks # [Suc (length tasks) ..< Suc (length tasks) + length todo]"
    by (subst upt_rec) simp
  then show ?case by (simp add: Cons.IH)
qed

text \<open>
  C7. Whatever the requests come to, the burst of scenario 4 creates exactly 50 tasks,
  sleeps 0.1 seconds after each, then waits for all 50 with
  \<^verbatim>\<open>return_exceptions=True\<close>, and returns normally: the exception of a request ends
  up in the gathered list and is not raised.
\<close>

theorem cpu_intensive_load_burst:
  "cpu_intensive_load self outcome =
     (concat (replicate 50
        [CreateTask (app_url self @ ''/api/cpu-intensive'') 500000, AsyncSleep (1 / 10)])
      @ [Gather 50 True], Inr ())
   \<and> gather True (map outcome [0..<50]) = ([Gather 50 True], Inr (map outcome [0..<50]))"
  by (simp add: cpu_intensive_load_def launch_requests_trace io_bind_def emit_def gather_def)

theorem cpu_intensive_load_burst_witness:
  "one_failing 3 = Inl ClientError
   \<and> snd (cpu_intensive_load demo_local one_failing) = Inr ()
   \<and> length (filter (\<lambda>e. e = CreateTask ''http://localhost:8080/api/cpu-intensive'' 500000)
        (fst (cpu_intensive_load demo_local one_failing))) = 50"
  using cpu_intensive_load_burst [of demo_local one_failing]
  by (simp add: one_failing_def demo_local_def init_demo_def filter_concat)

lemma cpu_intensive_load_events:
  "\<exists>launches. cpu_intensive_load self outcome = (launches @ [Gather 50 True], Inr ())
     \<and> Terminate \<notin> set launches \<and> Wait \<notin> set launches"
proof -
  let ?l = "concat (replicate 50
        [CreateTask (app_url self @ ''/api/cpu-intensive'') 500000, AsyncSleep (1 / 10)])"
  have "cpu_intensive_load self outcome = (?l @ [Gather 50 True], Inr ())"
    by (simp add: cpu_intensive_load_def launch_requests_trace io_bind_def emit_def gather_def)
  moreover have "Terminate \<notin> set ?l \<and> Wait \<notin> set ?l" by auto
  ultimately show ?thesis by blast
qed

lemma scenario_4_shape:
  assumes "snd (scenario_4_cpu_intensive self env outcome) = Inr ()"
  shows "last (takeWhile (\<lambda>e. e \<noteq> Terminate) (fst (scenario_4_cpu_intensive self env outcome)))
           = Gather 50 True
       \<and> dropWhile (\<lambda>e. e \<noteq> Terminate) (fst (scenario_4_cpu_intensive self env outcome))
           = [Terminate, Print (CHR 0x0A # '' Scenario 4 completed!'')]"
proof -
  obtain launches where l: "cpu_intensive_load self outcome = (launches @ [Gather 50 True], Inr ())"
      "Terminate \<notin> set launches"
    using cpu_intensive_load_events by blast
  have notT: "\<forall>e\<in>set launches. e \<noteq> Terminate" using l(2) by auto
  show ?thesis
    using assms notT
    by (auto simp: scenario_defs l(1) takeWhile_append2 dropWhile_append2 takeWhile_append1
        split: option.splits)
qed

lemma scenarios_ok_local:
  "snd (scenario_1_gradual_ramp demo_local os_ok) = Inr ()"
  "snd (scenario_2_spike_test demo_local os_ok) = Inr ()"
  "snd (scenario_3_sustained_load demo_local os_ok) = Inr ()"
  "snd (scenario_4_cpu_intensive demo_local os_ok all_ok) = Inr ()"
proof -
  obtain launches where "cpu_intensive_load demo_local all_ok = (launches @ [Gather 50 True], Inr ())"
    using cpu_intensive_load_events by blast
  then show "snd (scenario_4_cpu_intensive demo_local os_ok all_ok) = Inr ()"
    by (simp add: scenario_defs os_ok_def)
qed (simp_all add: scenario_defs os_ok_def)

text \<open>
  C1, as stated, fails: scenario 1 returns normally without ever waiting for the monitor
  process after it has signalled it.
\<close>

theorem scenario_1_returns_without_wait:
  "snd (scenario_1_gradual_ramp demo_local os_ok) = Inr ()
   \<and> \<not> joined_after_terminate (fst (scenario_1_gradual_ramp demo_local os_ok))"
  by (simp add: scenario_defs joined_after_terminate_def os_ok_def)

text \<open>
  C1, amended. In each of the four scenarios, when it returns normally, the signal to the
  monitor comes right after the last event of the load phase, and after the signal the
  scenario only prints its completion line: it returns without waiting for the monitor
  to exit.
\<close>

theorem scenarios_terminate_without_wait:
  "(snd (scenario_1_gradual_ramp self env) = Inr () \<longrightarrow>
      last (takeWhile (\<lambda>e. e \<noteq> Terminate) (fst (scenario_1_gradual_ramp self env)))
        = SubprocessRun (scenario_1_load_cmd self)
      \<and> dropWhile (\<lambda>e. e \<noteq> Terminate) (fst (scenario_1_gradual_ramp self env))
        = [Terminate, Print (CHR 0x0A # '' Scenario 1 completed!'')])
 \<and> (snd (scenario_2_spike_test self env) = Inr () \<longrightarrow>
      last (takeWhile (\<lambda>e. e \<noteq> Terminate) (fst (scenario_2_spike_test self env)))
        = SubprocessRun (scenario_2_load_cmd self)
      \<and> dropWhile (\<lambda>e. e \<noteq> Terminate) (fst (scenario_2_spike_test self env))
        = [Terminate, Print (CHR 0x0A # '' Scenario 2 completed!'')])
 \<and> (snd (scenario_3_sustained_load self env) = Inr () \<longrightarrow>
      last (takeWhile (\<lambda>e. e \<noteq> Terminate) (fst (scenario_3_sustained_load self env)))
        = SubprocessRun (scenario_3_load_cmd self)
      \<and> dropWhile (\<lambda>e. e \<noteq> Terminate) (fst (scenario_3_sustained_load self env))
        = [Terminate, Print (CHR 0x0A # '' Scenario 3 completed!'')])
 \<and> (snd (scenario_4_cpu_intensive self env outcome) = Inr () \<longrightarrow>
      last (takeWhile (\<lambda>e. e \<noteq> Terminate) (fst (scenario_4_cpu_intensive self env outcome)))
        = Gather 50 True
      \<and> dropWhile (\<lambda>e. e \<noteq> Terminate) (fst (scenario_4_cpu_intensive self env outcome))
        = [Terminate, Print (CHR 0x0A # '' Scenario 4 completed!'')])"
proof -
  have s1: "snd (scenario_1_gradual_ramp self env) = Inr () \<longrightarrow>
      last (takeWhile (\<lambda>e. e \<noteq> Terminate) (fst (scenario_1_gradual_ramp self env)))
        = SubprocessRun (scenario_1_load_cmd self)
      \<and> dropWhile (\<lambda>e. e \<noteq> Terminate) (fst (scenario_1_gradual_ramp self env))
        = [Terminate, Print (CHR 0x0A # '' Scenario 1 completed!'')]"
    by (auto simp: scenario_defs split: option.splits run_outcome.splits)
  have s2: "snd (scenario_2_spike_test self env) = Inr () \<longrightarrow>
      last (takeWhile (\<lambda>e. e \<noteq> Terminate) (fst (scenario_2_spike_test self env)))
        = SubprocessRun (scenario_2_load_cmd self)
      \<and> dropWhile (\<lambda>e. e \<noteq> Terminate) (fst (scenario_2_spike_test self env))
        = [Terminate, Print (CHR 0x0A # '' Scenario 2 completed!'')]"
    by (auto simp: scenario_defs split: option.splits run_outcome.splits)
  have s3: "snd (scenario_3_sustained_load self env) = Inr () \<longrightarrow>
      last (takeWhile (\<lambda>e. e \<noteq> Terminate) (fst (scenario_3_sustained_load self env)))
        = SubprocessRun (scenario_3_load_cmd self)
      \<and> dropWhile (\<lambda>e. e \<noteq> Terminate) (fst (scenario_3_sustained_load self env))
        = [Terminate, Print (CHR 0x0A # '' Scenario 3 completed!'')]"
    by (auto simp: scenario_defs split: option.splits run_outcome.splits)
  from s1 s2 s3 scenario_4_shape [of self env outcome] show ?thesis by blast
qed

theorem scenarios_terminate_without_wait_witness:
  "snd (scenario_1_gradual_ramp demo_local os_ok) = Inr ()
   \<and> dropWhile (\<lambda>e. e \<noteq> Terminate) (fst (scenario_1_gradual_ramp demo_local os_ok))
       = [Terminate, Print (CHR 0x0A # '' Scenario 1 completed!'')]
   \<and> snd (scenario_2_spike_test demo_local os_ok) = Inr ()
   \<and> dropWhile (\<lambda>e. e \<noteq> Terminate) (fst (scenario_2_spike_test demo_local os_ok))
       = [Terminate, Print (CHR 0x0A # '' Scenario 2 completed!'')]
   \<and> snd (scenario_3_sustained_load demo_local os_ok) = Inr ()
   \<and> dropWhile (\<lambda>e. e \<noteq> Terminate) (fst (scenario_3_sustained_load demo_local os_ok))
       = [Terminate, Print (CHR 0x0A # '' Scenario 3 completed!'')]
   \<and> snd (scenario_4_cpu_intensive demo_local os_ok all_ok) = Inr ()
   \<and> dropWhile (\<lambda>e. e \<noteq> Terminate) (fst (scenario_4_cpu_intensive demo_local os_ok all_ok))
       = [Terminate, Print (CHR 0x0A # '' Scenario 4 completed!'')]"
  using scenarios_terminate_without_wait [of demo_local os_ok all_ok] scenarios_ok_local
  by simp

section \<open>The report and the full run\<close>

lemma not_found_files_append:
  "not_found_files (xs @ ys) = not_found_files xs @ not_found_files ys"
  by (induction xs rule: not_found_files.induct) simp_all

lemma hist_positions_append:
  "hist_positions (xs @ ys) = hist_positions xs @ hist_positions ys"
  by (induction xs rule: hist_positions.induct) simp_all

lemma response_times_ok:
  "list_all (\<lambda>r. status_code r \<noteq> None) rs \<Longrightarrow> \<exists>ts. response_times rs = Inr ts"
  by (induction rs) auto

lemma plot_scenario_readable:
  assumes "readable opened" and "i < 3"
  shows "\<exists>evs. plot_scenario i sc opened = (evs, Inr ())
           \<and> not_found_files evs = (if opened = Missing then [fst sc] else [])
           \<and> hist_positions evs = (if plots opened then [(i div 2, i mod 2)] else [])"
proof (cases opened)
  case Missing
  then show ?thesis by (simp add: plot_scenario_def)
next
  case (Failed e)
  with assms show ?thesis by (simp add: readable_def)
next
  case (Loaded data)
  show ?thesis
  proof (cases "stats data = []")
    case True
    with Loaded assms show ?thesis by (simp add: plot_scenario_def)
  next
    case False
    with Loaded assms obtain avg where avg: "map_of (stats data) ''average_response_time'' = Some avg"
      and all: "list_all (\<lambda>r. status_code r \<noteq> None) (results data)"
      by (auto simp: readable_def well_formed_def)
    from response_times_ok [OF all] obtain ts where "response_times (results data) = Inr ts" ..
    with Loaded False avg assms show ?thesis by (simp add: plot_scenario_def)
  qed
qed

lemma plot_all_readable:
  assumes "\<forall>(i, sc)\<in>set xs. readable (open_json (fst sc)) \<and> i < 3"
  shows "snd (plot_all open_json xs) = Inr ()
       \<and> not_found_files (fst (plot_all open_json xs))
           = map (\<lambda>(i, sc). fst sc) (filter (\<lambda>(i, sc). open_json (fst sc) = Missing) xs)
       \<and> hist_positions (fst (plot_all open_json xs))
           = map (\<lambda>(i, sc). (i div 2, i mod 2)) (filter (\<lambda>(i, sc). plots (open_json (fst sc))) xs)"
  using assms
proof (induction xs)
  case Nil
  show ?case by simp
next
  case (Cons x xs)
  obtain i sc where x: "x = (i, sc)" by (cases x)
  from Cons.prems x have r: "readable (open_json (fst sc))" and i: "i < 3" by auto
  from plot_scenario_readable [OF r i, of sc] obtain evs where
    evs: "plot_scenario i sc (open_json (fst sc)) = (evs, Inr ())"
      "not_found_files evs = (if open_json (fst sc) = Missing then [fst sc] else [])"
      "hist_positions evs = (if plots (open_json (fst sc)) then [(i div 2, i mod 2)] else [])"
    by blast
  from Cons.prems have "\<forall>(i, sc)\<in>set xs. readable (open_json (fst sc)) \<and> i < 3" by simp
  from Cons.IH [OF this] obtain evs' where
    rest: "plot_all open_json xs = (evs', Inr ())"
      "not_found_files evs'
         = map (\<lambda>(i, sc). fst sc) (filter (\<lambda>(i, sc). open_json (fst sc) = Missing) xs)"
      "hist_positions evs'
         = map (\<lambda>(i, sc). (i div 2, i mod 2)) (filter (\<lambda>(i, sc). plots (open_json (fst sc))) xs)"
    by (cases "plot_all open_json xs") auto
  show ?case
    by (simp add: x io_bind_def evs rest not_found_files_append hist_positions_append)
qed

lemma well_formed_good_data: "well_formed good_data"
  by (simp add: well_formed_def good_data_def)

text \<open>
  C10. When each of the three result files is either missing or holds data that the loop
  body can plot, \<^verbatim>\<open>generate_demo_report\<close> returns normally: it prints one
  not-found message for each missing file, in order, draws a histogram for each file
  that is there with statistics, and saves the figure.
\<close>

theorem generate_demo_report_tolerates_missing:
  assumes "\<forall>f\<in>set (map fst scenarios).
             open_json f = Missing \<or> (\<exists>data. open_json f = Loaded data \<and> well_formed data)"
  shows "snd (generate_demo_report open_json) = Inr ()
       \<and> not_found_files (fst (generate_demo_report open_json))
           = filter (\<lambda>f. open_json f = Missing) (map fst scenarios)
       \<and> hist_positions (fst (generate_demo_report open_json))
           = map (\<lambda>(i, sc). (i div 2, i mod 2))
               (filter (\<lambda>(i, sc). plots (open_json (fst sc))) (zip [0..<length scenarios] scenarios))
       \<and> SaveFig ''autoscaling_demo_report.png'' \<in> set (fst (generate_demo_report open_json))"
proof -
  let ?xs = "zip [0..<length scenarios] scenarios"
  have xs: "?xs = [(0, scenarios ! 0), (1, scenarios ! 1), (2, scenarios ! 2)]"
    by (simp add: scenarios_def upt_rec)
  have "\<forall>f\<in>set (map fst scenarios). readable (open_json f)"
    using assms by (auto simp: readable_def)
  then have "\<forall>(i, sc)\<in>set ?xs. readable (open_json (fst sc)) \<and> i < 3"
    unfolding xs by (simp add: scenarios_def)
  from plot_all_readable [OF this] obtain evs where
    p: "plot_all open_json ?xs = (evs, Inr ())"
      "not_found_files evs
         = map (\<lambda>(i, sc). fst sc) (filter (\<lambda>(i, sc). open_json (fst sc) = Missing) ?xs)"
      "hist_positions evs
         = map (\<lambda>(i, sc). (i div 2, i mod 2)) (filter (\<lambda>(i, sc). plots (open_json (fst sc))) ?xs)"
    by (cases "plot_all open_json ?xs") auto
  have nf: "map (\<lambda>(i, sc). fst sc) (filter (\<lambda>(i, sc). open_json (fst sc) = Missing) ?xs)
      = filter (\<lambda>f. open_json f = Missing) (map fst scenarios)"
    unfolding xs by (simp add: scenarios_def)
  show ?thesis
    using p(2,3) nf
    by (simp add: generate_demo_report_def io_bind_def emit_def p(1)
        not_found_files_append hist_positions_append)
qed

theorem generate_demo_report_tolerates_missing_witness:
  "generate_demo_report only_scenario2 =
     ([Print (CHR 0x0A # '' GENERATING DEMO REPORT''), Print (replicate 50 (CHR ''='')), Subplots,
       PrintNotFound ''scenario1_results.json'',
       Hist (0, 1) [10], SetTitle (0, 1) ''Load Spikes'' 10,
       PrintNotFound ''scenario3_results.json'',
       SummaryText, SaveFig ''autoscaling_demo_report.png'',
       Print ''Demo report saved to: autoscaling_demo_report.png''], Inr ())
   \<and> not_found_files (fst (generate_demo_report only_scenario2))
       = [''scenario1_results.json'', ''scenario3_results.json'']"
proof -
  have "\<forall>f\<in>set (map fst scenarios).
          only_scenario2 f = Missing \<or> (\<exists>data. only_scenario2 f = Loaded data \<and> well_formed data)"
    by (simp add: scenarios_def only_scenario2_def well_formed_good_data)
  from generate_demo_report_tolerates_missing [OF this]
  have "not_found_files (fst (generate_demo_report only_scenario2))
       = filter (\<lambda>f. only_scenario2 f = Missing) (map fst scenarios)" by blast
  moreover have "generate_demo_report only_scenario2 =
     ([Print (CHR 0x0A # '' GENERATING DEMO REPORT''), Print (replicate 50 (CHR ''='')), Subplots,
       PrintNotFound ''scenario1_results.json'',
       Hist (0, 1) [10], SetTitle (0, 1) ''Load Spikes'' 10,
       PrintNotFound ''scenario3_results.json'',
       SummaryText, SaveFig ''autoscaling_demo_report.png'',
       Print ''Demo report saved to: autoscaling_demo_report.png''], Inr ())"
    by (simp add: generate_demo_report_def io_bind_def emit_def scenarios_def upt_rec
        plot_scenario_def only_scenario2_def good_data_def)
  ultimately show ?thesis by (simp add: scenarios_def only_scenario2_def)
qed

text \<open>
  C8. When the four scenarios return normally, the command \<open>all\<close> runs scenario 1,
  sleeps 30 seconds, runs scenario 2, sleeps 30 seconds, runs scenario 3, sleeps 30
  seconds, runs scenario 4, and only then generates the report.
\<close>

theorem main_all_sequence:
  assumes "arg_command a = All"
    and "scenario_1_gradual_ramp (init_demo (arg_url a) (arg_kubectl_context a)) (w_os w) = (e1, Inr ())"
    and "scenario_2_spike_test (init_demo (arg_url a) (arg_kubectl_context a)) (w_os w) = (e2, Inr ())"
    and "scenario_3_sustained_load (init_demo (arg_url a) (arg_kubectl_context a)) (w_os w) = (e3, Inr ())"
    and "scenario_4_cpu_intensive (init_demo (arg_url a) (arg_kubectl_context a)) (w_os w)
           (w_request_outcome w) = (e4, Inr ())"
    and "generate_demo_report (w_open_json w) = (report, r)"
  shows "main a w =
     Some ([Print '' RUNNING ALL AUTOSCALING DEMO SCENARIOS'', Print (replicate 70 (CHR ''=''))]
           @ e1 @ [AsyncSleep 30] @ e2 @ [AsyncSleep 30] @ e3 @ [AsyncSleep 30] @ e4 @ report, r)"
  using assms by (simp add: main_def io_bind_def emit_def Let_def)

theorem main_all_sequence_witness:
  "main args_all world_ok =
     Some ([Print '' RUNNING ALL AUTOSCALING DEMO SCENARIOS'', Print (replicate 70 (CHR ''=''))]
           @ fst (scenario_1_gradual_ramp demo_local os_ok) @ [AsyncSleep 30]
           @ fst (scenario_2_spike_test demo_local os_ok) @ [AsyncSleep 30]
           @ fst (scenario_3_sustained_load demo_local os_ok) @ [AsyncSleep 30]
           @ fst (scenario_4_cpu_intensive demo_local os_ok all_ok)
           @ fst (generate_demo_report only_scenario2),
           snd (generate_demo_report only_scenario2))"
proof -
  have a: "arg_command args_all = All"
    and d: "init_demo (arg_url args_all) (arg_kubectl_context args_all) = demo_local"
    and w: "w_os world_ok = os_ok" "w_request_outcome world_ok = all_ok"
      "w_open_json world_ok = only_scenario2"
    by (simp_all add: args_all_def world_ok_def demo_local_def)
  show ?thesis
    using main_all_sequence [of args_all world_ok
        "fst (scenario_1_gradual_ramp demo_local os_ok)"
        "fst (scenario_2_spike_test demo_local os_ok)"
        "fst (scenario_3_sustained_load demo_local os_ok)"
        "fst (scenario_4_cpu_intensive demo_local os_ok all_ok)"
        "fst (generate_demo_report only_scenario2)"
        "snd (generate_demo_report only_scenario2)"]
      scenarios_ok_local
    by (simp add: a d w prod_eq_iff)
qed

end
